theory Spec2Isabelle
  imports Main "HOL-Library.Sublist"
begin

section \<open>Response schemas\<close>

text \<open>
  \<^verbatim>\<open>app/api/hello/schemas.py\<close>: \<^verbatim>\<open>class HelloResponse(BaseModel)\<close> with the one
  required field \<^verbatim>\<open>message: str\<close>.
\<close>

record HelloResponse =
  message :: string

text \<open>
  Modelled from the spec: the \<^verbatim>\<open>HealthResponse\<close> schema imported by
  \<^verbatim>\<open>app/api/health/router.py\<close> from \<^verbatim>\<open>app/api/health/schemas.py\<close>, a file that is not
  among the sources. The spec gives it one field, \<^verbatim>\<open>status\<close> (text).
\<close>

record HealthResponse =
  status :: string

text \<open>
  A response model is sent as a JSON object with one member per field, in the order of
  the fields; a JSON object of string members is an association list.
\<close>

type_synonym json = "(string \<times> string) list"

definition HelloResponse_json :: "HelloResponse \<Rightarrow> json" where
  "HelloResponse_json r = [(''message'', message r)]"

definition HealthResponse_json :: "HealthResponse \<Rightarrow> json" where
  "HealthResponse_json r = [(''status'', status r)]"

section \<open>The greeting rule\<close>

text \<open>
  \<^verbatim>\<open>app/api/hello/service.py\<close>. The argument is an \<^verbatim>\<open>Optional[str]\<close>: \<open>None\<close> is
  Python's \<^verbatim>\<open>None\<close>, \<open>Some s\<close> a string.

  \<open>truthy\<close> is the truth test of \<^verbatim>\<open>if name:\<close> on such a value: \<^verbatim>\<open>None\<close> and the empty
  string are false, every other string is true.
\<close>

fun truthy :: "string option \<Rightarrow> bool" where
  "truthy None = False"
| "truthy (Some s) = (s \<noteq> [])"

text \<open>
  \<open>fstr\<close> is the replacement field \<^verbatim>\<open>{name}\<close> of the f-string: a string is inserted as
  it is, \<^verbatim>\<open>None\<close> as the text \<^verbatim>\<open>None\<close>.
\<close>

fun fstr :: "string option \<Rightarrow> string" where
  "fstr None = ''None''"
| "fstr (Some s) = s"

definition generate_greeting :: "string option \<Rightarrow> string" where
  "generate_greeting name =
     (if truthy name then ''Hello '' @ fstr name @ ''!''
      else ''Hello World!'')"

section \<open>Requests, responses and routes\<close>

text \<open>
  What the handlers see of the web framework. A request carries its method, its path
  (relative to the mount prefix), its query parameters as the dictionary the framework
  reads them from, its headers and its payload. A response is a status code and a JSON
  body. A route pairs a method and a path with the handler that the decorator
  \<^verbatim>\<open>@router.get(path, response_model=...)\<close> registers.
\<close>

datatype http_method = GET | HEAD | POST | PUT | PATCH | DELETE | OPTIONS

record request =
  req_method :: http_method
  req_path :: string
  query_params :: "string \<rightharpoonup> string"
  req_headers :: "string \<rightharpoonup> string"
  req_body :: string

record response =
  status_code :: nat
  body :: json

record route =
  route_method :: http_method
  route_path :: string
  route_handler :: "request \<Rightarrow> response"

text \<open>
  \<^verbatim>\<open>Query(default, ...)\<close> on a parameter: the value of the query parameter of that name
  when the request has one, the default otherwise.
\<close>

definition Query :: "request \<Rightarrow> string \<Rightarrow> string option \<Rightarrow> string option" where
  "Query req key dflt =
     (case query_params req key of None \<Rightarrow> dflt | Some v \<Rightarrow> Some v)"

text \<open>
  \<^verbatim>\<open>APIRouter()\<close> is a router with no routes (its tags only label the documentation).
  The routers are built once, when the modules are loaded, so each step that adds to a
  router takes it and returns it extended.
\<close>

definition APIRouter :: "route list" where
  "APIRouter = []"

text \<open>
  \<^verbatim>\<open>@r.get(path, response_model=M)\<close> on an endpoint appends to \<open>r\<close> a route for the
  method GET at \<open>path\<close>; the value the endpoint returns is sent as the body with the
  default status 200.
\<close>

definition get :: "route list \<Rightarrow> string \<Rightarrow> (request \<Rightarrow> json) \<Rightarrow> route list" where
  "get r p endpoint =
     r @ [\<lparr>route_method = GET, route_path = p,
           route_handler = (\<lambda>req. \<lparr>status_code = 200, body = endpoint req\<rparr>)\<rparr>]"

text \<open>
  \<^verbatim>\<open>r.include_router(sub)\<close> appends the routes of \<open>sub\<close> to those of \<open>r\<close>, in order.
\<close>

definition include_router :: "route list \<Rightarrow> route list \<Rightarrow> route list" where
  "include_router r sub = r @ sub"

text \<open>
  How the framework's router answers a request (\<^verbatim>\<open>Route.matches\<close> and \<^verbatim>\<open>Router.app\<close>).

  A route path without parameters, such as \<^verbatim>\<open>/hello\<close>, is compiled to the pattern
  \<^verbatim>\<open>^/hello$\<close> and tried on the request path with \<^verbatim>\<open>re.match\<close>. In Python \<^verbatim>\<open>$\<close> holds
  at the end of the string and also just before a newline that ends the string, so the
  pattern accepts the path itself and the path followed by one newline.
\<close>

definition path_regex_match :: "string \<Rightarrow> string \<Rightarrow> bool" where
  "path_regex_match pat p = (p = pat \<or> p = pat @ [CHR 0x0A])"

text \<open>
  A route matches a request fully when the path pattern and the method agree, partially
  when only the path pattern does.
\<close>

datatype Match = NONE | PARTIAL | FULL

definition matches :: "route \<Rightarrow> request \<Rightarrow> Match" where
  "matches rt req =
     (if path_regex_match (route_path rt) (req_path req)
      then (if route_method rt = req_method req then FULL else PARTIAL)
      else NONE)"

definition not_found :: response where
  "not_found = \<lparr>status_code = 404, body = [(''detail'', ''Not Found'')]\<rparr>"

definition method_not_allowed :: response where
  "method_not_allowed = \<lparr>status_code = 405, body = [(''detail'', ''Method Not Allowed'')]\<rparr>"

text \<open>
  The router walks its routes in order. The first full match handles the request. With
  no full match, the first partial match handles it, which answers 405. \<open>None\<close> means
  that no route matched at all.
\<close>

fun find_route :: "route list \<Rightarrow> request \<Rightarrow> bool \<Rightarrow> response option" where
  "find_route [] req partial = (if partial then Some method_not_allowed else None)"
| "find_route (rt # rts) req partial =
     (case matches rt req of
        FULL \<Rightarrow> Some (route_handler rt req)
      | PARTIAL \<Rightarrow> find_route rts req True
      | NONE \<Rightarrow> find_route rts req partial)"

text \<open>
  When no route matched and the path is not \<^verbatim>\<open>/\<close>, the router (\<^verbatim>\<open>redirect_slashes\<close> is
  on by default and the program leaves it so) tries the path again with its trailing
  slashes removed (\<^verbatim>\<open>rstrip("/")\<close>) when it ends with a slash, and with one slash added
  otherwise. If any route matches that path, fully or partially, the answer is a
  redirect to it with status 307 and an empty body; the target of the redirect is a
  header, and headers are not part of \<open>response\<close>. Otherwise the answer is 404.
\<close>

definition rstrip_slash :: "string \<Rightarrow> string" where
  "rstrip_slash p = rev (dropWhile (\<lambda>c. c = CHR ''/'') (rev p))"

definition redirect_path :: "string \<Rightarrow> string" where
  "redirect_path p =
     (if p \<noteq> [] \<and> last p = CHR ''/'' then rstrip_slash p else p @ ''/'')"

definition redirect_slashes :: "route list \<Rightarrow> request \<Rightarrow> bool" where
  "redirect_slashes rts req =
     (req_path req \<noteq> ''/'' \<and>
      list_ex (\<lambda>rt. matches rt (req\<lparr>req_path := redirect_path (req_path req)\<rparr>) \<noteq> NONE) rts)"

definition temporary_redirect :: response where
  "temporary_redirect = \<lparr>status_code = 307, body = []\<rparr>"

definition dispatch :: "route list \<Rightarrow> request \<Rightarrow> response" where
  "dispatch rts req =
     (case find_route rts req False of
        Some resp \<Rightarrow> resp
      | None \<Rightarrow> if redirect_slashes rts req then temporary_redirect else not_found)"

section \<open>The endpoints\<close>

text \<open>
  \<^verbatim>\<open>app/api/hello/router.py\<close>: the endpoint \<^verbatim>\<open>hello\<close> takes the optional query parameter
  \<^verbatim>\<open>name\<close> (default \<^verbatim>\<open>None\<close>), calls the greeting rule and wraps the result.
\<close>

definition hello :: "string option \<Rightarrow> HelloResponse" where
  "hello name = \<lparr>message = generate_greeting name\<rparr>"

definition hello_router :: "route list" where
  "hello_router =
     get APIRouter ''/hello'' (\<lambda>req. HelloResponse_json (hello (Query req ''name'' None)))"

text \<open>
  \<^verbatim>\<open>app/api/health/router.py\<close>: the endpoint \<^verbatim>\<open>health\<close> takes no parameter.
\<close>

definition health :: HealthResponse where
  "health = \<lparr>status = ''healthy''\<rparr>"

definition health_router :: "route list" where
  "health_router = get APIRouter ''/health'' (\<lambda>req. HealthResponse_json health)"

text \<open>
  \<^verbatim>\<open>app/api/routes.py\<close>: the main router includes the hello router, then the health
  router.
\<close>

definition router :: "route list" where
  "router = include_router (include_router APIRouter hello_router) health_router"

section \<open>The process and its invocations\<close>

text \<open>
  The routers are module-level objects: they are built once, when the modules are
  loaded, and every later invocation of the process finds them, and whatever other
  module-level state there is, as the invocation before left them. \<open>process\<close> is that
  state: the route table of the main router, and (the extension of the record) anything
  else the process holds.

  \<open>invoke\<close> is one invocation: the request is dispatched on the route table of the
  process. Neither the dispatch nor the endpoints \<^verbatim>\<open>hello\<close> and \<^verbatim>\<open>health\<close> assign to a
  module-level name or change a module-level object, so the process is returned as it
  was found.
\<close>

record process =
  routes :: "route list"


text \<open>
  \<open>run h p reqs\<close> is the life of a process that starts in state \<open>p\<close> and answers the
  requests \<open>reqs\<close> one after another with the handler \<open>h\<close>, each invocation starting in
  the state the one before returned.
\<close>

fun run :: "('s \<Rightarrow> request \<Rightarrow> response \<times> 's) \<Rightarrow> 's \<Rightarrow> request list \<Rightarrow> response list" where
  "run h p [] = []"
| "run h p (req # reqs) = (case h p req of (resp, p') \<Rightarrow> resp # run h p' reqs)"

section \<open>Calling the greeting rule with any Python value\<close>

text \<open>
  The annotation \<^verbatim>\<open>Optional[str]\<close> is not enforced when \<^verbatim>\<open>generate_greeting\<close> is called,
  and the two operations that its body applies to \<^verbatim>\<open>name\<close> are dispatched on the value:
  the truth test of \<^verbatim>\<open>if name:\<close> and the formatting of \<^verbatim>\<open>{name}\<close>. On \<^verbatim>\<open>None\<close> and on a
  string both are built in. On any other object they run the object's own
  \<^verbatim>\<open>__bool__\<close> (or \<^verbatim>\<open>__len__\<close>) and \<^verbatim>\<open>__format__\<close>, each of which returns a value or
  raises; \<open>PyObject\<close> stands for such an object by these two outcomes.
\<close>

datatype py_error = Raised string

datatype pyval =
  PyNone
| PyStr string
| PyObject "py_error + bool" "py_error + string"

fun py_truth :: "pyval \<Rightarrow> py_error + bool" where
  "py_truth PyNone = Inr False"
| "py_truth (PyStr s) = Inr (s \<noteq> [])"
| "py_truth (PyObject b f) = b"

fun py_format :: "pyval \<Rightarrow> py_error + string" where
  "py_format PyNone = Inr ''None''"
| "py_format (PyStr s) = Inr s"
| "py_format (PyObject b f) = f"

text \<open>
  The body of \<^verbatim>\<open>generate_greeting\<close> on any value: an exception raised by the truth test
  or by the formatting leaves the function; otherwise one of the two \<^verbatim>\<open>return\<close>
  statements is reached.
\<close>

definition generate_greeting_call :: "pyval \<Rightarrow> py_error + string" where
  "generate_greeting_call name =
     (case py_truth name of
        Inl e \<Rightarrow> Inl e
      | Inr t \<Rightarrow>
          if t then
            (case py_format name of
               Inl e \<Rightarrow> Inl e
             | Inr s \<Rightarrow> Inr (''Hello '' @ s @ ''!''))
          else Inr ''Hello World!'')"

text \<open>The input domain of the rule, \<^verbatim>\<open>None\<close> or a string, among the Python values.\<close>

fun optional :: "string option \<Rightarrow> pyval" where
  "optional None = PyNone"
| "optional (Some s) = PyStr s"

section \<open>Properties of the greeting rule\<close>

text \<open>
  C1. For every non-empty string \<open>n\<close>, the greeting rule returns exactly \<^verbatim>\<open>"Hello "\<close>
  followed by \<open>n\<close> followed by \<^verbatim>\<open>"!"\<close>.
\<close>

theorem generate_greeting_nonempty:
  "n \<noteq> [] \<Longrightarrow> generate_greeting (Some n) = ''Hello '' @ n @ ''!''"
  by (simp add: generate_greeting_def)

theorem generate_greeting_nonempty_witness:
  "''Ada'' \<noteq> [] \<and> generate_greeting (Some ''Ada'') = ''Hello Ada!''"
  using generate_greeting_nonempty [of "''Ada''"] by simp

text \<open>
  C2. When the name is absent (\<^verbatim>\<open>None\<close>) and when it is the empty string, the greeting
  rule returns the constant string \<^verbatim>\<open>"Hello World!"\<close>.
\<close>

theorem generate_greeting_default:
  "generate_greeting None = ''Hello World!'' \<and> generate_greeting (Some []) = ''Hello World!''"
  by (simp add: generate_greeting_def)

text \<open>
  C5. The greeting rule is total on its input domain: called with \<^verbatim>\<open>None\<close> or with any
  string, it returns a string (the one the rule prescribes) and raises no error; the
  branches of the call that end in an error are not reached from this domain.
\<close>

theorem generate_greeting_total:
  "generate_greeting_call (optional name) = Inr (generate_greeting name)
   \<and> (\<forall>e. generate_greeting_call (optional name) \<noteq> Inl e)"
  by (cases name) (simp_all add: generate_greeting_call_def generate_greeting_def)

text \<open>
  Outside the domain the error branches are live: an object whose truth test raises, or
  which is true and whose formatting raises, makes the call raise.
\<close>

lemma generate_greeting_call_raises:
  "generate_greeting_call (PyObject (Inl e) f) = Inl e"
  "generate_greeting_call (PyObject (Inr True) (Inl e)) = Inl e"
  by (simp_all add: generate_greeting_call_def)

text \<open>
  C6. Every message produced by the greeting rule is non-empty, and so is the
  \<^verbatim>\<open>message\<close> field of the \<^verbatim>\<open>HelloResponse\<close> that the endpoint builds from it, for
  any optional name.
\<close>

theorem generate_greeting_not_empty:
  "generate_greeting name \<noteq> [] \<and> message (hello name) \<noteq> []"
  by (simp add: generate_greeting_def hello_def)

text \<open>
  C9. The greeting rule is injective on non-empty names: two distinct non-empty names
  get distinct greetings.
\<close>

theorem generate_greeting_injective:
  "n1 \<noteq> [] \<Longrightarrow> n2 \<noteq> [] \<Longrightarrow> n1 \<noteq> n2 \<Longrightarrow>
   generate_greeting (Some n1) \<noteq> generate_greeting (Some n2)"
  by (simp add: generate_greeting_def)

theorem generate_greeting_injective_witness:
  "''Ada'' \<noteq> [] \<and> ''Bob'' \<noteq> [] \<and> ''Ada'' \<noteq> ''Bob'' \<and>
   generate_greeting (Some ''Ada'') \<noteq> generate_greeting (Some ''Bob'')"
  using generate_greeting_injective [of "''Ada''" "''Bob''"] by simp

text \<open>
  C10. For every optional name, the greeting starts with \<^verbatim>\<open>"Hello "\<close> and ends with
  \<^verbatim>\<open>"!"\<close>.
\<close>

theorem generate_greeting_affixes:
  "prefix ''Hello '' (generate_greeting name) \<and> suffix ''!'' (generate_greeting name)"
  by (simp add: generate_greeting_def suffix_def)

section \<open>Properties of the endpoints\<close>

lemmas router_defs =
  router_def include_router_def APIRouter_def hello_router_def health_router_def
  get_def dispatch_def matches_def path_regex_match_def

text \<open>
  C3. For every optional name (absent, empty or non-empty), a GET of \<^verbatim>\<open>/hello\<close> with
  that name succeeds with status 200 and a body whose single field \<^verbatim>\<open>message\<close> is the
  greeting for that name. In particular, GET \<^verbatim>\<open>/hello\<close> with no name yields
  \<^verbatim>\<open>{"message": "Hello World!"}\<close> and GET \<^verbatim>\<open>/hello?name=Ada\<close> yields
  \<^verbatim>\<open>{"message": "Hello Ada!"}\<close>.
\<close>

theorem hello_endpoint_ok:
  "dispatch router
     (req\<lparr>req_method := GET, req_path := ''/hello'',
          query_params := (query_params req)(''name'' := name)\<rparr>)
   = \<lparr>status_code = 200, body = [(''message'', generate_greeting name)]\<rparr>
   \<and> dispatch router
       \<lparr>req_method = GET, req_path = ''/hello'', query_params = Map.empty,
        req_headers = hs, req_body = b\<rparr>
     = \<lparr>status_code = 200, body = [(''message'', ''Hello World!'')]\<rparr>
   \<and> dispatch router
       \<lparr>req_method = GET, req_path = ''/hello'', query_params = [''name'' \<mapsto> ''Ada''],
        req_headers = hs, req_body = b\<rparr>
     = \<lparr>status_code = 200, body = [(''message'', ''Hello Ada!'')]\<rparr>"
proof -
  have "dispatch router
     (req\<lparr>req_method := GET, req_path := ''/hello'',
          query_params := (query_params req)(''name'' := name)\<rparr>)
   = \<lparr>status_code = 200, body = [(''message'', generate_greeting name)]\<rparr>"
    by (cases name) (simp_all add: router_defs Query_def HelloResponse_json_def hello_def)
  moreover have "dispatch router
       \<lparr>req_method = GET, req_path = ''/hello'', query_params = Map.empty,
        req_headers = hs, req_body = b\<rparr>
     = \<lparr>status_code = 200, body = [(''message'', ''Hello World!'')]\<rparr>"
    by (simp add: router_defs Query_def HelloResponse_json_def hello_def
        generate_greeting_def)
  moreover have "dispatch router
       \<lparr>req_method = GET, req_path = ''/hello'', query_params = [''name'' \<mapsto> ''Ada''],
        req_headers = hs, req_body = b\<rparr>
     = \<lparr>status_code = 200, body = [(''message'', ''Hello Ada!'')]\<rparr>"
    by (simp add: router_defs Query_def HelloResponse_json_def hello_def
        generate_greeting_def)
  ultimately show ?thesis by blast
qed

text \<open>
  C4. The health endpoint answers every GET of \<^verbatim>\<open>/health\<close>, whatever else the request
  carries (query parameters, headers, payload), with status 200 and the body
  \<^verbatim>\<open>{"status": "healthy"}\<close>.
\<close>

theorem health_endpoint_ok:
  "dispatch router (req\<lparr>req_method := GET, req_path := ''/health''\<rparr>)
   = \<lparr>status_code = 200, body = [(''status'', ''healthy'')]\<rparr>"
  by (simp add: router_defs HealthResponse_json_def health_def)



text \<open>
  This is a property of \<open>invoke\<close>, not of \<open>run\<close>: under a handler that writes to the
  process (here one that empties the route table after answering), the second of two
  equal requests is answered differently from the first.
\<close>

lemma run_writing_handler:
  "run (\<lambda>p req. (dispatch (routes p) req, p\<lparr>routes := []\<rparr>)) \<lparr>routes = router\<rparr>
     [\<lparr>req_method = GET, req_path = ''/hello'', query_params = Map.empty,
       req_headers = Map.empty, req_body = []\<rparr>,
      \<lparr>req_method = GET, req_path = ''/hello'', query_params = Map.empty,
       req_headers = Map.empty, req_body = []\<rparr>]
   = [\<lparr>status_code = 200, body = [(''message'', ''Hello World!'')]\<rparr>, not_found]"
  by (simp add: router_defs Query_def HelloResponse_json_def hello_def generate_greeting_def
      redirect_slashes_def redirect_path_def)



section \<open>Order of inclusion\<close>

text \<open>
  A block of routes none of which matches the request, fully or partially, can be
  dropped from the front or from the back of the route list.
\<close>

lemma find_route_skip:
  "\<forall>rt \<in> set a. matches rt req = NONE \<Longrightarrow> find_route (a @ b) req p = find_route b req p"
  by (induction a) simp_all

lemma find_route_ignore:
  "\<forall>rt \<in> set b. matches rt req = NONE \<Longrightarrow> find_route (a @ b) req p = find_route a req p"
proof (induction a arbitrary: p)
  case Nil
  then show ?case using find_route_skip [of b req "[]" p] by simp
next
  case (Cons rt a)
  then show ?case by (cases "matches rt req") simp_all
qed

text \<open>
  Two route lists of which, for the request at hand, at most one has a matching route
  can be searched in either order.
\<close>

lemma find_route_append_commute:
  assumes "(\<forall>rt \<in> set a. matches rt req = NONE) \<or> (\<forall>rt \<in> set b. matches rt req = NONE)"
  shows "find_route (a @ b) req p = find_route (b @ a) req p"
  using assms
proof
  assume na: "\<forall>rt \<in> set a. matches rt req = NONE"
  show ?thesis by (simp add: find_route_ignore [OF na] find_route_skip [OF na])
next
  assume nb: "\<forall>rt \<in> set b. matches rt req = NONE"
  show ?thesis by (simp add: find_route_ignore [OF nb] find_route_skip [OF nb])
qed

text \<open>The search for a redirect asks whether any route matches: order plays no part.\<close>

lemma redirect_slashes_append_commute:
  "redirect_slashes (a @ b) req = redirect_slashes (b @ a) req"
  by (auto simp: redirect_slashes_def)

lemma dispatch_append_commute:
  assumes "(\<forall>rt \<in> set a. matches rt req = NONE) \<or> (\<forall>rt \<in> set b. matches rt req = NONE)"
  shows "dispatch (a @ b) req = dispatch (b @ a) req"
  by (simp add: dispatch_def find_route_append_commute [OF assms]
      redirect_slashes_append_commute [of a b])

text \<open>
  The paths \<^verbatim>\<open>/hello\<close> and \<^verbatim>\<open>/health\<close> are different, and so are the sets of request
  paths their patterns accept: no request matches a route of both routers.
\<close>

lemma hello_health_paths_disjoint:
  "route_path ` set hello_router \<inter> route_path ` set health_router = {}"
  by (simp add: hello_router_def health_router_def get_def APIRouter_def)

lemma hello_health_no_common_match:
  "(\<forall>rt \<in> set hello_router. matches rt req = NONE)
   \<or> (\<forall>rt \<in> set health_router. matches rt req = NONE)"
  by (auto simp: hello_router_def health_router_def get_def APIRouter_def matches_def
      path_regex_match_def)

text \<open>
  C8. The order in which the hello router and the health router are included is
  immaterial: the paths \<^verbatim>\<open>/hello\<close> and \<^verbatim>\<open>/health\<close> are disjoint, and for every request
  (any method, path and query, so also the paths that are answered by 404, 405 or a
  redirect) the main router answers as the router built with the health router
  included first does.
\<close>

theorem router_order_immaterial:
  "route_path ` set hello_router \<inter> route_path ` set health_router = {}
   \<and> dispatch router req =
     dispatch (include_router (include_router APIRouter health_router) hello_router) req"
  using hello_health_paths_disjoint
    dispatch_append_commute [OF hello_health_no_common_match, of req]
  by (simp add: router_def include_router_def APIRouter_def)

end
